theory Spec2Isabelle
  imports Main "HOL-Library.Char_ord" "HOL-Library.List_Lexorder"
begin

section \<open>Python strings and integers\<close>

text \<open>
  A Python \<open>str\<close> is modelled as a \<open>string\<close>, a list of 8-bit characters. The string
  methods the tools use are written out on the ASCII range: \<open>isspace\<close> holds for the
  ASCII characters Python's \<open>str.isspace\<close> accepts (TAB, LF, VT, FF, CR, FS, GS, RS, US
  and the blank), \<open>lower\<close> maps \<open>A\<close>..\<open>Z\<close> to \<open>a\<close>..\<open>z\<close> and leaves every other
  character alone.
\<close>

definition isspace :: "char \<Rightarrow> bool" where
  "isspace c \<longleftrightarrow>
     c = CHR 0x09 \<or> c = CHR 0x0A \<or> c = CHR 0x0B \<or> c = CHR 0x0C \<or> c = CHR 0x0D \<or>
     c = CHR 0x1C \<or> c = CHR 0x1D \<or> c = CHR 0x1E \<or> c = CHR 0x1F \<or> c = CHR 0x20"

definition strip :: "string \<Rightarrow> string" where
  "strip s = rev (dropWhile isspace (rev (dropWhile isspace s)))"

definition lower_char :: "char \<Rightarrow> char" where
  "lower_char c =
     (case map_of (zip ''ABCDEFGHIJKLMNOPQRSTUVWXYZ'' ''abcdefghijklmnopqrstuvwxyz'') c of
        None \<Rightarrow> c
      | Some d \<Rightarrow> d)"

definition lower :: "string \<Rightarrow> string" where
  "lower s = map lower_char s"

text \<open>\<open>p in s\<close> on strings: \<open>p\<close> occurs in \<open>s\<close> as a contiguous substring.\<close>

definition startswith :: "string \<Rightarrow> string \<Rightarrow> bool" where
  "startswith s p \<longleftrightarrow> take (length p) s = p"

fun py_in :: "string \<Rightarrow> string \<Rightarrow> bool" where
  "py_in p [] = (p = [])"
| "py_in p (c # cs) = (startswith (c # cs) p \<or> py_in p cs)"

text \<open>\<open>a or b\<close> on strings: the first operand unless it is empty.\<close>

definition por :: "string \<Rightarrow> string \<Rightarrow> string" where
  "por a b = (if a = [] then b else a)"

text \<open>\<open>sep.join(xs)\<close>.\<close>

fun join :: "string \<Rightarrow> string list \<Rightarrow> string" where
  "join sep [] = []"
| "join sep [x] = x"
| "join sep (x # y # ys) = x @ sep @ join sep (y # ys)"

text \<open>\<open>str(i)\<close> of an integer: decimal digits, a leading minus sign when negative.\<close>

definition digit_char :: "nat \<Rightarrow> char" where
  "digit_char d = ''0123456789'' ! d"

definition isdigit :: "char \<Rightarrow> bool" where
  "isdigit c \<longleftrightarrow> c \<in> set ''0123456789''"

definition digit_val :: "char \<Rightarrow> nat" where
  "digit_val c =
     (case map_of (zip ''0123456789'' [0, 1, 2, 3, 4, 5, 6, 7, 8, 9]) c of
        None \<Rightarrow> 0
      | Some d \<Rightarrow> d)"

fun str_nat :: "nat \<Rightarrow> string" where
  "str_nat n = (if n < 10 then [digit_char n] else str_nat (n div 10) @ [digit_char (n mod 10)])"

declare str_nat.simps [simp del]

definition str_int :: "int \<Rightarrow> string" where
  "str_int i = (if i < 0 then CHR ''-'' # str_nat (nat (- i)) else str_nat (nat i))"

text \<open>
  \<open>int(s)\<close> of a string: surrounding whitespace is dropped, then an optional sign, then
  decimal digits, where single underscores may stand between two digits. \<open>None\<close> is the
  \<open>ValueError\<close> Python raises on anything else.
\<close>

fun py_digits :: "nat \<Rightarrow> string \<Rightarrow> nat option" where
  "py_digits acc [] = Some acc"
| "py_digits acc (c # cs) =
     (if isdigit c then py_digits (10 * acc + digit_val c) cs
      else if c = CHR ''_'' then
        (case cs of
           [] \<Rightarrow> None
         | d # ds \<Rightarrow> if isdigit d then py_digits acc cs else None)
      else None)"

definition py_unsigned :: "string \<Rightarrow> nat option" where
  "py_unsigned s =
     (case s of
        [] \<Rightarrow> None
      | c # cs \<Rightarrow> if isdigit c then py_digits 0 s else None)"

definition py_int :: "string \<Rightarrow> int option" where
  "py_int s =
     (let t = strip s in
      case t of
        [] \<Rightarrow> None
      | c # cs \<Rightarrow>
          if c = CHR ''-'' then map_option (\<lambda>n. - int n) (py_unsigned cs)
          else if c = CHR ''+'' then map_option int (py_unsigned cs)
          else map_option int (py_unsigned t))"

section \<open>Exceptions\<close>

text \<open>
  The exceptions that reach \<open>main\<close>. \<open>SystemExit\<close> carries the argument it was raised
  with: nothing, an integer status (\<open>sys.exit(2)\<close>) or a message
  (\<open>raise SystemExit("...")\<close>). \<open>OSError\<close> stands for every other I/O failure;
  it and \<open>FileNotFoundError\<close> carry the text \<open>str(e)\<close> gives.
\<close>

datatype exit_arg = ExitNone | ExitInt int | ExitStr string

datatype py_exc =
    SystemExit exit_arg
  | ValueError string
  | FileNotFoundError string
  | PermissionError
  | OSError string

section \<open>nekroctl: input validation\<close>

definition quote :: "string \<Rightarrow> string" where
  "quote s = [CHR 0x27] @ s @ [CHR 0x27]"

definition hexdigits :: string where
  "hexdigits = ''0123456789abcdefABCDEF''"

text \<open>\<open>_parse_hex_color\<close> (nekroctl.py, lines 91-97).\<close>

definition parse_hex_color :: "string \<Rightarrow> py_exc + string" where
  "parse_hex_color s0 =
     (let s1 = strip s0;
          s = (if startswith s1 ''#'' then drop 1 s1 else s1)
      in if length s \<noteq> 6 \<or> (\<exists>c \<in> set s. c \<notin> set hexdigits)
         then Inl (ValueError (''Invalid color '' @ quote s @ ''. Use RRGGBB or #RRGGBB.''))
         else Inr (lower s))"

text \<open>\<open>_parse_percent\<close> (lines 100-109).\<close>

definition parse_percent :: "string \<Rightarrow> bool \<Rightarrow> py_exc + int" where
  "parse_percent v allow_zero_auto =
     (case py_int v of
        None \<Rightarrow> Inl (ValueError ''Expected integer percentage'')
      | Some i \<Rightarrow>
          if allow_zero_auto \<and> i = 0 then Inr 0
          else if \<not> (1 \<le> i \<and> i \<le> 100)
          then Inl (ValueError ''Percentage must be between 1 and 100 (or 0 for auto)'')
          else Inr i)"

text \<open>
  \<open>_parse_percent_or_auto\<close> (lines 112-116). The argument is a string (a command-line
  value) or an integer (a value already normalised); the function starts with \<open>str(v)\<close>.
\<close>

datatype py_val = PyStr string | PyInt int

fun py_str :: "py_val \<Rightarrow> string" where
  "py_str (PyStr s) = s"
| "py_str (PyInt i) = str_int i"

definition parse_percent_or_auto :: "py_val \<Rightarrow> py_exc + int" where
  "parse_percent_or_auto v =
     (let s = lower (strip (py_str v))
      in if s \<in> {''auto'', ''a''} then Inr 0 else parse_percent s True)"

text \<open>\<open>_parse_on_off\<close> (lines 325-333).\<close>

definition parse_on_off :: "string \<Rightarrow> py_exc + int" where
  "parse_on_off val =
     (let s = lower (strip val)
      in if s \<in> {''1'', ''on'', ''true'', ''yes'', ''y'', ''enable'', ''enabled''} then Inr 1
         else if s \<in> {''0'', ''off'', ''false'', ''no'', ''n'', ''disable'', ''disabled''} then Inr 0
         else Inl (ValueError ''Expected on/off (or 1/0, true/false, yes/no)''))"

text \<open>
  The list comprehension \<open>[_parse_hex_color(c) for c in colors]\<close>: the first invalid
  colour raises.
\<close>

fun parse_colors :: "string list \<Rightarrow> py_exc + string list" where
  "parse_colors [] = Inr []"
| "parse_colors (c # cs) =
     (case parse_hex_color c of
        Inl e \<Rightarrow> Inl e
      | Inr x \<Rightarrow> (case parse_colors cs of Inl e \<Rightarrow> Inl e | Inr xs \<Rightarrow> Inr (x # xs)))"

text \<open>
  \<open>int(h, 16)\<close> on a string of hexadecimal digits; the tool calls it only on slices of
  a colour \<open>_parse_hex_color\<close> has accepted.
\<close>

definition hex_val :: "char \<Rightarrow> nat" where
  "hex_val c =
     (case map_of (zip ''0123456789abcdefABCDEF''
             [0, 1, 2, 3, 4, 5, 6, 7, 8, 9, 10, 11, 12, 13, 14, 15, 10, 11, 12, 13, 14, 15]) c of
        None \<Rightarrow> 0
      | Some d \<Rightarrow> d)"

definition py_int16 :: "string \<Rightarrow> int" where
  "py_int16 s = int (foldl (\<lambda>a c. 16 * a + hex_val c) 0 s)"

section \<open>nekroctl: attribute files\<close>

text \<open>\<open>os.path.join\<close> of two components.\<close>

definition path_join :: "string \<Rightarrow> string \<Rightarrow> string" where
  "path_join a b =
     (if startswith b ''/'' then b
      else if a = [] \<or> last a = CHR ''/'' then a @ b
      else a @ ''/'' @ b)"

definition SYSFS_BASE :: string where
  "SYSFS_BASE = ''/sys/module/nekro_sense/drivers/platform:acer-wmi/acer-wmi''"

definition KB_PER_ZONE :: string where
  "KB_PER_ZONE = path_join SYSFS_BASE ''four_zoned_kb/per_zone_mode''"

definition KB_FOUR_MODE :: string where
  "KB_FOUR_MODE = path_join SYSFS_BASE ''four_zoned_kb/four_zone_mode''"

definition LOGO_COLOR :: string where
  "LOGO_COLOR = path_join SYSFS_BASE ''back_logo/color''"

definition SENSE_PRED :: string where
  "SENSE_PRED = path_join SYSFS_BASE ''predator_sense''"

definition SENSE_NITRO :: string where
  "SENSE_NITRO = path_join SYSFS_BASE ''nitro_sense''"

definition PLATFORM_PROFILE :: string where
  "PLATFORM_PROFILE = ''/sys/firmware/acpi/platform_profile''"

definition PLATFORM_PROFILE_CHOICES :: string where
  "PLATFORM_PROFILE_CHOICES = ''/sys/firmware/acpi/platform_profile_choices''"

text \<open>The dictionary \<open>MODE_NAME_TO_ID\<close>, in the order its keys are listed.\<close>

definition MODE_NAME_TO_ID :: "(string \<times> int) list" where
  "MODE_NAME_TO_ID =
     [(''static'', 0), (''breathing'', 1), (''neon'', 2), (''wave'', 3),
      (''shifting'', 4), (''zoom'', 5), (''meteor'', 6), (''twinkling'', 7)]"

text \<open>
  The file system the tool runs against: which paths exist, what reading a path gives
  (its text, or the exception \<open>open\<close> raises) and what writing a text to a path does
  (\<open>None\<close> when the write goes through, the exception otherwise).
\<close>

record sysfs =
  exists_at :: "string \<Rightarrow> bool"
  open_read :: "string \<Rightarrow> py_exc + string"
  open_write :: "string \<Rightarrow> string \<Rightarrow> py_exc option"

text \<open>
  What a command does besides returning: lines printed on standard output, text written
  to standard error, a text written to an attribute file, the help of a subcommand
  printed.
\<close>

datatype io = Stdout string | Stderr string | FileWrite string string | PrintHelp string

text \<open>
  A command returns normally or raises, and leaves a log of its effects in order. A
  raised exception ends the command: the effects before it stay in the log.
\<close>

type_synonym 'a run = "(py_exc + 'a) \<times> io list"

definition ok :: "'a \<Rightarrow> 'a run" where
  "ok x = (Inr x, [])"

definition raise :: "py_exc \<Rightarrow> 'a run" where
  "raise e = (Inl e, [])"

definition emit :: "io \<Rightarrow> unit run" where
  "emit x = (Inr (), [x])"

definition lift :: "py_exc + 'a \<Rightarrow> 'a run" where
  "lift r = (r, [])"

definition and_then :: "'a run \<Rightarrow> ('a \<Rightarrow> 'b run) \<Rightarrow> 'b run" where
  "and_then m f =
     (case m of
        (Inl e, l) \<Rightarrow> (Inl e, l)
      | (Inr x, l) \<Rightarrow> (case f x of (r, l') \<Rightarrow> (r, l @ l')))"

definition path_exists :: "sysfs \<Rightarrow> string \<Rightarrow> bool" where
  "path_exists env p = exists_at env p"

definition read_text :: "sysfs \<Rightarrow> string \<Rightarrow> string run" where
  "read_text env path =
     (case open_read env path of
        Inl e \<Rightarrow> raise e
      | Inr t \<Rightarrow> ok (strip t))"

definition write_text :: "sysfs \<Rightarrow> string \<Rightarrow> string \<Rightarrow> unit run" where
  "write_text env path content =
     (case open_write env path content of
        None \<Rightarrow> emit (FileWrite path content)
      | Some PermissionError \<Rightarrow>
          (Inl PermissionError,
           [Stderr (''Permission denied writing to '' @ path @ ''. Try running with sudo/root.\<newline>'')])
      | Some e \<Rightarrow> raise e)"

definition detect_sense_dir :: "sysfs \<Rightarrow> string option" where
  "detect_sense_dir env =
     (if path_exists env SENSE_PRED then Some SENSE_PRED
      else if path_exists env SENSE_NITRO then Some SENSE_NITRO
      else None)"

definition require_path :: "sysfs \<Rightarrow> string \<Rightarrow> string \<Rightarrow> unit run" where
  "require_path env path desc =
     (if \<not> path_exists env path
      then (Inl (SystemExit (ExitInt 2)),
            [Stderr (''Missing '' @ desc @ '' at '' @ path @
               ''. Ensure the Nekro-Sense module is loaded and your device supports this feature.\<newline>'')])
      else ok ())"

section \<open>nekroctl: the commands\<close>

text \<open>
  Each command takes the file system and the attributes of the parsed
  \<open>argparse.Namespace\<close> it reads. Parsing the command line itself is argparse's work and
  is not modelled: options declared \<open>type=int\<close> arrive as integers, \<open>nargs="*"\<close> as a
  list, \<open>nargs="?"\<close> as an optional string.
\<close>

subsection \<open>Keyboard, per zone\<close>

record per_zone_args =
  pz_colors :: "string list"
  pz_brightness :: "int option"
  pz_parser :: bool

text \<open>\<open>cmd_rgb_per_zone\<close> (lines 119-143).\<close>

definition cmd_rgb_per_zone :: "sysfs \<Rightarrow> per_zone_args \<Rightarrow> unit run" where
  "cmd_rgb_per_zone env args =
     and_then (require_path env KB_PER_ZONE ''four-zone keyboard per_zone_mode'') (\<lambda>_.
     and_then (lift (parse_colors (pz_colors args))) (\<lambda>colors.
       if length colors = 0 then
         (if pz_parser args then emit (PrintHelp ''rgb per-zone'')
          else raise (SystemExit (ExitStr ''Provide at least one color (RRGGBB).'')))
       else
         let colors = (if length colors = 1 then concat (replicate 4 colors) else colors)
         in if length colors \<noteq> 4
            then raise (SystemExit (ExitStr ''Provide exactly 1 or 4 colors (RRGGBB).''))
            else
              let brightness = (case pz_brightness args of None \<Rightarrow> 100 | Some b \<Rightarrow> b)
              in if \<not> (0 \<le> brightness \<and> brightness \<le> 100)
                 then raise (SystemExit (ExitStr ''Brightness must be 0-100''))
                 else
                   and_then
                     (write_text env KB_PER_ZONE
                        (join '','' (colors @ [str_int brightness]) @ ''\<newline>''))
                     (\<lambda>_. emit (Stdout ''OK: per-zone colors set''))))"

definition cmd_rgb_per_zone_get :: "sysfs \<Rightarrow> unit run" where
  "cmd_rgb_per_zone_get env =
     and_then (require_path env KB_PER_ZONE ''four-zone keyboard per_zone_mode'') (\<lambda>_.
     and_then (read_text env KB_PER_ZONE) (\<lambda>t. emit (Stdout t)))"

subsection \<open>Keyboard, effect\<close>

record effect_args =
  ef_mode :: "py_val option"
  ef_speed :: int
  ef_brightness :: int
  ef_direction :: int
  ef_color :: "string option"
  ef_parser :: bool

text \<open>
  The resolution of the mode inside \<open>cmd_rgb_effect\<close> (lines 161-177): a name of the
  table in any case, else the integer the text denotes, else the "unknown mode" exit;
  then the range check.
\<close>

definition effect_mode_id :: "py_val \<Rightarrow> py_exc + int" where
  "effect_mode_id mode =
     (case
        (case mode of
           PyStr m \<Rightarrow>
             (let mode_key = lower m
              in case map_of MODE_NAME_TO_ID mode_key of
                   Some i \<Rightarrow> Inr i
                 | None \<Rightarrow>
                     (case py_int m of
                        Some i \<Rightarrow> Inr i
                      | None \<Rightarrow>
                          Inl (SystemExit (ExitStr
                            (''Unknown mode '' @ quote m @ ''. Use one of: '' @
                             join '', '' (map fst MODE_NAME_TO_ID) @ '' or 0-7.'')))))
         | PyInt i \<Rightarrow> Inr i)
      of
        Inl e \<Rightarrow> Inl e
      | Inr mode_id \<Rightarrow>
          if \<not> (0 \<le> mode_id \<and> mode_id \<le> 7)
          then Inl (SystemExit (ExitStr ''Mode must be 0-7''))
          else Inr mode_id)"

text \<open>The optional colour of the effect (lines 189-194): three channels, 0 when unset.\<close>

definition effect_rgb :: "string option \<Rightarrow> py_exc + (int \<times> int \<times> int)" where
  "effect_rgb color =
     (case color of
        None \<Rightarrow> Inr (0, 0, 0)
      | Some c \<Rightarrow>
          if c = [] then Inr (0, 0, 0)
          else
            (case parse_hex_color c of
               Inl e \<Rightarrow> Inl e
             | Inr hexcol \<Rightarrow>
                 Inr (py_int16 (take 2 hexcol),
                      py_int16 (take 2 (drop 2 hexcol)),
                      py_int16 (take 2 (drop 4 hexcol)))))"

text \<open>\<open>cmd_rgb_effect\<close> (lines 151-208).\<close>

definition cmd_rgb_effect :: "sysfs \<Rightarrow> effect_args \<Rightarrow> unit run" where
  "cmd_rgb_effect env args =
     and_then (require_path env KB_FOUR_MODE ''four-zone keyboard four_zone_mode'') (\<lambda>_.
       case ef_mode args of
         None \<Rightarrow>
           (if ef_parser args then emit (PrintHelp ''rgb effect'')
            else raise (SystemExit (ExitStr ''Mode is required'')))
       | Some mode \<Rightarrow>
           and_then (lift (effect_mode_id mode)) (\<lambda>mode_id.
             if \<not> (0 \<le> ef_speed args \<and> ef_speed args \<le> 9)
             then raise (SystemExit (ExitStr ''Speed must be 0-9''))
             else if \<not> (0 \<le> ef_brightness args \<and> ef_brightness args \<le> 100)
             then raise (SystemExit (ExitStr ''Brightness must be 0-100''))
             else if \<not> (1 \<le> ef_direction args \<and> ef_direction args \<le> 2)
             then raise (SystemExit (ExitStr ''Direction must be 1 or 2''))
             else
               and_then (lift (effect_rgb (ef_color args))) (\<lambda>(r, g, b).
               and_then
                 (write_text env KB_FOUR_MODE
                    (join '',''
                       [str_int mode_id, str_int (ef_speed args), str_int (ef_brightness args),
                        str_int (ef_direction args), str_int r, str_int g, str_int b]
                     @ ''\<newline>''))
                 (\<lambda>_. emit (Stdout ''OK: effect set'')))))"

definition cmd_rgb_effect_get :: "sysfs \<Rightarrow> unit run" where
  "cmd_rgb_effect_get env =
     and_then (require_path env KB_FOUR_MODE ''four-zone keyboard four_zone_mode'') (\<lambda>_.
     and_then (read_text env KB_FOUR_MODE) (\<lambda>t. emit (Stdout t)))"

subsection \<open>Power profile\<close>

definition cmd_power_get :: "sysfs \<Rightarrow> unit run" where
  "cmd_power_get env =
     and_then (require_path env PLATFORM_PROFILE ''platform_profile'') (\<lambda>_.
     and_then (read_text env PLATFORM_PROFILE) (\<lambda>t. emit (Stdout t)))"

definition cmd_power_list :: "sysfs \<Rightarrow> unit run" where
  "cmd_power_list env =
     and_then (require_path env PLATFORM_PROFILE_CHOICES ''platform_profile_choices'') (\<lambda>_.
     and_then (read_text env PLATFORM_PROFILE_CHOICES) (\<lambda>t. emit (Stdout t)))"

text \<open>\<open>s.split(" ")\<close>: the pieces between single blanks, empty pieces kept.\<close>

fun split_char :: "char \<Rightarrow> string \<Rightarrow> string list" where
  "split_char sep [] = [[]]"
| "split_char sep (c # cs) =
     (if c = sep then [] # split_char sep cs
      else (case split_char sep cs of
              [] \<Rightarrow> [[c]]
            | x # xs \<Rightarrow> (c # x) # xs))"

text \<open>\<open>cmd_power_set\<close> (lines 226-236); the set \<open>allowed\<close> is kept as a list.\<close>

definition cmd_power_set :: "sysfs \<Rightarrow> string \<Rightarrow> unit run" where
  "cmd_power_set env mode =
     and_then (require_path env PLATFORM_PROFILE ''platform_profile'') (\<lambda>_.
     and_then
       (if path_exists env PLATFORM_PROFILE_CHOICES then
          and_then (read_text env PLATFORM_PROFILE_CHOICES) (\<lambda>choices.
            let allowed = filter (\<lambda>c. c \<noteq> []) (map strip (split_char (CHR '' '') choices))
            in if allowed \<noteq> [] \<and> mode \<notin> set allowed
               then raise (SystemExit (ExitStr
                      (''Unsupported profile '' @ quote mode @ ''. Choices: '' @
                       join '', '' (sort (remdups allowed)))))
               else ok ())
        else ok ())
       (\<lambda>_.
     and_then (write_text env PLATFORM_PROFILE (mode @ ''\<newline>''))
       (\<lambda>_. emit (Stdout ''OK: power profile set''))))"

text \<open>The wrapper of \<open>power set\<close> (lines 430-434).\<close>

definition power_set_wrapper :: "sysfs \<Rightarrow> string option \<Rightarrow> unit run" where
  "power_set_wrapper env mode =
     (case mode of
        None \<Rightarrow> emit (PrintHelp ''power set'')
      | Some m \<Rightarrow> cmd_power_set env m)"

subsection \<open>Back logo\<close>

record logo_args =
  lg_color :: string
  lg_brightness :: "int option"
  lg_on :: bool
  lg_off :: bool

definition cmd_logo_get :: "sysfs \<Rightarrow> unit run" where
  "cmd_logo_get env =
     and_then (require_path env LOGO_COLOR ''back_logo/color'') (\<lambda>_.
     and_then (read_text env LOGO_COLOR) (\<lambda>v. emit (Stdout v)))"

text \<open>\<open>cmd_logo_set\<close> (lines 246-260).\<close>

definition cmd_logo_set :: "sysfs \<Rightarrow> logo_args \<Rightarrow> unit run" where
  "cmd_logo_set env args =
     and_then (require_path env LOGO_COLOR ''back_logo/color'') (\<lambda>_.
     and_then (lift (parse_hex_color (lg_color args))) (\<lambda>color.
       let b = (case lg_brightness args of None \<Rightarrow> 100 | Some b \<Rightarrow> b)
       in if \<not> (0 \<le> b \<and> b \<le> 100)
          then raise (SystemExit (ExitStr ''Brightness must be 0-100''))
          else
            let en = (if lg_off args then 0 else 1)
            in and_then
                 (write_text env LOGO_COLOR
                    (color @ '','' @ str_int b @ '','' @ str_int en @ ''\<newline>''))
                 (\<lambda>_. emit (Stdout ''OK: back logo updated''))))"

text \<open>The wrapper of \<open>logo set\<close> (lines 454-457).\<close>

definition logo_set_wrapper :: "sysfs \<Rightarrow> logo_args \<Rightarrow> unit run" where
  "logo_set_wrapper env a =
     (if lg_on a \<and> lg_off a
      then raise (SystemExit (ExitStr ''Choose either --on or --off, not both''))
      else cmd_logo_set env a)"

subsection \<open>Fans\<close>

text \<open>\<open>_fan_path\<close> (lines 263-272) and \<open>_battery_limit_path\<close> (lines 275-285).\<close>

definition sense_attr_path :: "sysfs \<Rightarrow> string \<Rightarrow> string run" where
  "sense_attr_path env name =
     (case detect_sense_dir env of
        None \<Rightarrow>
          (Inl (SystemExit (ExitInt 2)),
           [Stderr ''Could not find predator_sense or nitro_sense directory. Is the module loaded?\<newline>''])
      | Some sense \<Rightarrow>
          (let p = path_join sense name
           in and_then (require_path env p name) (\<lambda>_. ok p)))"

definition fan_path :: "sysfs \<Rightarrow> string run" where
  "fan_path env = sense_attr_path env ''fan_speed''"

definition battery_limit_path :: "sysfs \<Rightarrow> string run" where
  "battery_limit_path env = sense_attr_path env ''battery_limiter''"

definition cmd_fan_auto :: "sysfs \<Rightarrow> unit run" where
  "cmd_fan_auto env =
     and_then (fan_path env) (\<lambda>p.
     and_then (write_text env p ''0,0\<newline>'') (\<lambda>_. emit (Stdout ''OK: fan control set to auto'')))"

definition cmd_fan_get :: "sysfs \<Rightarrow> unit run" where
  "cmd_fan_get env =
     and_then (fan_path env) (\<lambda>p.
     and_then (read_text env p) (\<lambda>t. emit (Stdout t)))"

record fan_args =
  fs_values :: "string list"
  fs_cpu :: "string option"
  fs_gpu :: "string option"

text \<open>
  \<open>cmd_fan_set\<close> (lines 299-322). The locals \<open>cpu\<close> and \<open>gpu\<close> hold the option's string
  at first and an integer once normalised; every call passes \<open>str(...)\<close> of the local.
\<close>

definition cmd_fan_set :: "sysfs \<Rightarrow> fan_args \<Rightarrow> unit run" where
  "cmd_fan_set env args =
     and_then (fan_path env) (\<lambda>p.
     and_then
       (if fs_values args \<noteq> [] then
          (if length (fs_values args) = 1 then
             and_then (lift (parse_percent_or_auto (PyStr (fs_values args ! 0)))) (\<lambda>n.
               ok (Some (PyInt n), Some (PyInt n)))
           else if length (fs_values args) = 2 then
             and_then (lift (parse_percent_or_auto (PyStr (fs_values args ! 0)))) (\<lambda>c.
             and_then (lift (parse_percent_or_auto (PyStr (fs_values args ! 1)))) (\<lambda>g.
               ok (Some (PyInt c), Some (PyInt g))))
           else raise (SystemExit (ExitStr ''Provide one or two percentage values'')))
        else ok (map_option PyStr (fs_cpu args), map_option PyStr (fs_gpu args)))
       (\<lambda>(cpu, gpu).
     if cpu = None \<and> gpu = None
     then raise (SystemExit (ExitStr ''Specify fan percentages via values or --cpu/--gpu''))
     else
       and_then
         (case cpu of
            None \<Rightarrow>
              and_then (lift (parse_percent_or_auto (PyStr (py_str (the gpu))))) (\<lambda>n. ok (PyInt n))
          | Some c \<Rightarrow> ok c)
         (\<lambda>cpu.
       and_then
         (case gpu of
            None \<Rightarrow>
              and_then (lift (parse_percent_or_auto (PyStr (py_str cpu)))) (\<lambda>n. ok (PyInt n))
          | Some g \<Rightarrow> ok g)
         (\<lambda>gpu.
       and_then (lift (parse_percent_or_auto (PyStr (py_str cpu)))) (\<lambda>cpu.
       and_then (lift (parse_percent_or_auto (PyStr (py_str gpu)))) (\<lambda>gpu.
       and_then (write_text env p (str_int cpu @ '','' @ str_int gpu @ ''\<newline>''))
         (\<lambda>_. emit (Stdout (''OK: fan set CPU='' @ str_int cpu @ '' GPU='' @ str_int gpu)))))))))"

text \<open>The wrapper of \<open>fan set\<close> (lines 492-497).\<close>

definition fan_set_wrapper :: "sysfs \<Rightarrow> fan_args \<Rightarrow> unit run" where
  "fan_set_wrapper env a =
     (if fs_values a = [] \<and> fs_cpu a = None \<and> fs_gpu a = None
      then emit (PrintHelp ''fan set'')
      else cmd_fan_set env a)"

subsection \<open>Battery limiter\<close>

definition cmd_battery_get :: "sysfs \<Rightarrow> unit run" where
  "cmd_battery_get env =
     and_then (battery_limit_path env) (\<lambda>p.
     and_then (read_text env p) (\<lambda>t. emit (Stdout t)))"

text \<open>\<open>cmd_battery_set\<close> (lines 341-348): a \<open>ValueError\<close> becomes a \<open>SystemExit\<close>.\<close>

definition cmd_battery_set :: "sysfs \<Rightarrow> string \<Rightarrow> unit run" where
  "cmd_battery_set env mode =
     and_then (battery_limit_path env) (\<lambda>p.
     and_then
       (case parse_on_off mode of
          Inl (ValueError m) \<Rightarrow> raise (SystemExit (ExitStr m))
        | Inl e \<Rightarrow> raise e
        | Inr v \<Rightarrow> ok v)
       (\<lambda>v.
     and_then (write_text env p (str_int v @ ''\<newline>''))
       (\<lambda>_. emit (Stdout (''OK: battery limit set to '' @
                           (if v = 1 then ''ON (80%)'' else ''OFF (100%)''))))))"

definition cmd_battery_on :: "sysfs \<Rightarrow> unit run" where
  "cmd_battery_on env =
     and_then (battery_limit_path env) (\<lambda>p.
     and_then (write_text env p ''1\<newline>'') (\<lambda>_. emit (Stdout ''OK: battery limit ON (80%)'')))"

definition cmd_battery_off :: "sysfs \<Rightarrow> unit run" where
  "cmd_battery_off env =
     and_then (battery_limit_path env) (\<lambda>p.
     and_then (write_text env p ''0\<newline>'') (\<lambda>_. emit (Stdout ''OK: battery limit OFF (100%)'')))"

text \<open>The wrapper of \<open>battery set\<close> (lines 518-522).\<close>

definition battery_set_wrapper :: "sysfs \<Rightarrow> string option \<Rightarrow> unit run" where
  "battery_set_wrapper env mode =
     (case mode of
        None \<Rightarrow> emit (PrintHelp ''battery set'')
      | Some m \<Rightarrow> cmd_battery_set env m)"

subsection \<open>The entry point\<close>

text \<open>
  The leaves of the command tree, each with the arguments its function reads:
  what \<open>args.func(args)\<close> runs once \<open>parse_args\<close> has returned.
\<close>

datatype leaf =
    RgbPerZone per_zone_args
  | RgbPerZoneGet
  | RgbEffect effect_args
  | RgbEffectGet
  | PowerGet
  | PowerList
  | PowerSet "string option"
  | LogoGet
  | LogoSet logo_args
  | FanGet
  | FanAuto
  | FanSet fan_args
  | BatteryGet
  | BatteryOn
  | BatteryOff
  | BatterySet "string option"

fun run_leaf :: "sysfs \<Rightarrow> leaf \<Rightarrow> unit run" where
  "run_leaf env (RgbPerZone a) = cmd_rgb_per_zone env a"
| "run_leaf env RgbPerZoneGet = cmd_rgb_per_zone_get env"
| "run_leaf env (RgbEffect a) = cmd_rgb_effect env a"
| "run_leaf env RgbEffectGet = cmd_rgb_effect_get env"
| "run_leaf env PowerGet = cmd_power_get env"
| "run_leaf env PowerList = cmd_power_list env"
| "run_leaf env (PowerSet m) = power_set_wrapper env m"
| "run_leaf env LogoGet = cmd_logo_get env"
| "run_leaf env (LogoSet a) = logo_set_wrapper env a"
| "run_leaf env FanGet = cmd_fan_get env"
| "run_leaf env FanAuto = cmd_fan_auto env"
| "run_leaf env (FanSet a) = fan_set_wrapper env a"
| "run_leaf env BatteryGet = cmd_battery_get env"
| "run_leaf env BatteryOn = cmd_battery_on env"
| "run_leaf env BatteryOff = cmd_battery_off env"
| "run_leaf env (BatterySet m) = battery_set_wrapper env m"

text \<open>
  \<open>main\<close> (lines 529-549), from \<open>args.func(args)\<close> on: the exit status and the effects.
  \<open>int(e.code)\<close> of a message that is no integer raises inside the handler and gives 1.
\<close>

definition exit_status :: "py_exc + unit \<Rightarrow> int" where
  "exit_status r =
     (case r of
        Inr _ \<Rightarrow> 0
      | Inl (SystemExit ExitNone) \<Rightarrow> 0
      | Inl (SystemExit (ExitInt n)) \<Rightarrow> n
      | Inl (SystemExit (ExitStr m)) \<Rightarrow> (case py_int m of None \<Rightarrow> 1 | Some n \<Rightarrow> n)
      | Inl (FileNotFoundError m) \<Rightarrow> 2
      | Inl PermissionError \<Rightarrow> 3
      | Inl (ValueError m) \<Rightarrow> 1
      | Inl (OSError m) \<Rightarrow> 1)"

definition main_stderr :: "py_exc + unit \<Rightarrow> io list" where
  "main_stderr r =
     (case r of
        Inl (FileNotFoundError m) \<Rightarrow> [Stderr (''File not found: '' @ m @ ''\<newline>'')]
      | Inl (ValueError m) \<Rightarrow> [Stderr (''Error: '' @ m @ ''\<newline>'')]
      | Inl (OSError m) \<Rightarrow> [Stderr (''Error: '' @ m @ ''\<newline>'')]
      | _ \<Rightarrow> [])"

definition main :: "sysfs \<Rightarrow> leaf \<Rightarrow> int \<times> io list" where
  "main env l = (case run_leaf env l of (r, log) \<Rightarrow> (exit_status r, log @ main_stderr r))"

section \<open>nekroctl_gui: privileged execution\<close>

text \<open>
  The host the GUI runs on: what each of the three subprocesses returns for a command
  (\<open>returncode\<close>, \<open>stdout\<close>, \<open>stderr\<close>) and whether \<open>shutil.which\<close> finds \<open>sudo\<close> and
  \<open>pkexec\<close>. The three are separate functions, so the same command may fail unprivileged
  and succeed under \<open>sudo\<close>.
\<close>

type_synonym proc = "int \<times> string \<times> string"

record host =
  proc_nekroctl :: "string list \<Rightarrow> proc"
  which_sudo :: bool
  proc_sudo :: "string list \<Rightarrow> proc"
  which_pkexec :: bool
  proc_pkexec :: "string list \<Rightarrow> proc"

definition have_sudo :: "host \<Rightarrow> bool" where
  "have_sudo h = which_sudo h"

definition have_pkexec :: "host \<Rightarrow> bool" where
  "have_pkexec h = which_pkexec h"

definition stripped :: "proc \<Rightarrow> proc" where
  "stripped p = (case p of (code, out, err) \<Rightarrow> (code, strip out, strip err))"

text \<open>\<open>_run_nekroctl\<close>, \<open>_run_with_sudo\<close>, \<open>_run_with_pkexec\<close> (lines 70-119).\<close>

definition run_nekroctl :: "host \<Rightarrow> string list \<Rightarrow> proc" where
  "run_nekroctl h args = stripped (proc_nekroctl h args)"

definition run_with_sudo :: "host \<Rightarrow> string list \<Rightarrow> proc" where
  "run_with_sudo h args =
     (if \<not> have_sudo h then (127, [], ''sudo not found'')
      else stripped (proc_sudo h args))"

definition run_with_pkexec :: "host \<Rightarrow> string list \<Rightarrow> proc" where
  "run_with_pkexec h args =
     (if \<not> have_pkexec h then (127, [], ''pkexec not found; install policykit-1'')
      else stripped (proc_pkexec h args))"

text \<open>The two classifications of \<open>run_privileged\<close>, on the lowercased standard error.\<close>

definition perm_denied :: "int \<Rightarrow> string \<Rightarrow> bool" where
  "perm_denied code err_l \<longleftrightarrow>
     code = 3
     \<or> py_in ''permission denied'' err_l
     \<or> py_in ''operation not permitted'' err_l
     \<or> py_in ''not authorized'' err_l
     \<or> py_in ''authentication is required'' err_l
     \<or> py_in ''must be root'' err_l"

definition sudo_requires_password :: "int \<Rightarrow> string \<Rightarrow> bool" where
  "sudo_requires_password code2 err2_l \<longleftrightarrow>
     code2 = 127
     \<or> py_in ''a password is required'' err2_l
     \<or> (py_in ''password'' err2_l
        \<and> (py_in ''authentication'' err2_l \<or> py_in ''is required'' err2_l))
     \<or> py_in ''no tty present'' err2_l
     \<or> py_in ''unable to authenticate'' err2_l
     \<or> py_in ''sorry, you must have a tty to run sudo'' err2_l"

text \<open>
  \<open>run_privileged\<close> (lines 122-180). Besides \<open>(success, message)\<close> it returns the helpers
  it called, in order.
\<close>

datatype attempt = Unprivileged | SudoNonInteractive | Pkexec

definition failed_with :: "int \<Rightarrow> string" where
  "failed_with code = ''Failed with code '' @ str_int code"

definition run_privileged :: "host \<Rightarrow> string list \<Rightarrow> (bool \<times> string) \<times> attempt list" where
  "run_privileged h args =
     (case run_nekroctl h args of (code, out, err) \<Rightarrow>
        if code = 0 then ((True, por out ''OK''), [Unprivileged])
        else
          let err_l = lower (por err [])
          in if \<not> perm_denied code err_l
             then ((False, por err (por out (failed_with code))), [Unprivileged])
             else
               (case run_with_sudo h args of (code2, out2, err2) \<Rightarrow>
                  if code2 = 0
                  then ((True, por out2 ''OK''), [Unprivileged, SudoNonInteractive])
                  else
                    let err2_l = lower (por err2 [])
                    in if sudo_requires_password code2 err2_l
                       then
                         (case run_with_pkexec h args of (code3, out3, err3) \<Rightarrow>
                            if code3 = 0
                            then ((True, por out3 ''OK''),
                                  [Unprivileged, SudoNonInteractive, Pkexec])
                            else
                              ((False,
                                por err3 (por out3 (por err2 (por out2
                                  (por err (por out (failed_with code3))))))),
                               [Unprivileged, SudoNonInteractive, Pkexec]))
                       else
                         ((False,
                           por err2 (por out2 (por err (por out (failed_with code2))))),
                          [Unprivileged, SudoNonInteractive])))"

section \<open>nekroctl_gui: debounced apply of the per-zone colours\<close>

text \<open>\<open>parse_hex_color\<close> of the GUI (lines 214-220).\<close>

definition gui_parse_hex_color :: "string \<Rightarrow> py_exc + string" where
  "gui_parse_hex_color s0 =
     (let s1 = strip s0;
          s = (if startswith s1 ''#'' then drop 1 s1 else s1)
      in if length s \<noteq> 6 \<or> (\<exists>c \<in> set s. c \<notin> set hexdigits)
         then Inl (ValueError ''Use RRGGBB or #RRGGBB'')
         else Inr (lower s))"

fun gui_parse_colors :: "string list \<Rightarrow> py_exc + string list" where
  "gui_parse_colors [] = Inr []"
| "gui_parse_colors (c # cs) =
     (case gui_parse_hex_color c of
        Inl e \<Rightarrow> Inl e
      | Inr x \<Rightarrow> (case gui_parse_colors cs of Inl e \<Rightarrow> Inl e | Inr xs \<Rightarrow> Inr (x # xs)))"

text \<open>
  What \<open>_compute_per_zone_args\<close> reads: whether the attribute file exists, the
  brightness spin row (as the integer \<open>int(get_value())\<close> gives), the switch "single
  colour", the text of the single-colour entry and the texts of the zone entries.
\<close>

record widgets =
  kb_per_zone_exists :: bool
  bright_row :: int
  single_row :: bool
  single_color :: string
  z_entries :: "string list"

text \<open>\<open>_compute_per_zone_args\<close> (lines 491-507); any exception gives \<open>None\<close>.\<close>

definition compute_per_zone_args :: "widgets \<Rightarrow> string list option" where
  "compute_per_zone_args w =
     (if \<not> kb_per_zone_exists w then None
      else
        let brightness = bright_row w
        in case
             (if single_row w then
                (case gui_parse_hex_color (single_color w) of
                   Inl e \<Rightarrow> None
                 | Inr c \<Rightarrow> Some [c])
              else
                (case gui_parse_colors (z_entries w) of
                   Inl e \<Rightarrow> None
                 | Inr colors \<Rightarrow> if length colors \<noteq> 4 then None else Some colors))
           of
             None \<Rightarrow> None
           | Some colors \<Rightarrow>
               (let colors = (if length colors = 1 then concat (replicate 4 colors) else colors)
                in Some ([''rgb'', ''per-zone''] @ colors @ [''-b'', str_int brightness])))"

text \<open>
  The variables the closures of the per-zone section share (lines 486-489), the widgets,
  and what the closures do to the outside: the calls of \<open>run_privileged_async\<close> in order,
  and the notifier's last message.
\<close>

datatype notice = Info string | Error string

record pz_state =
  per_zone_timer_id :: "nat option"
  per_zone_last_change :: int
  last_per_zone_args :: "string option"
  ui :: widgets
  dispatched :: "string list list"
  notifier :: "notice option"
  next_source_id :: nat


text \<open>\<open>_apply_per_zone_now\<close> (lines 509-526).\<close>

definition apply_per_zone_now :: "pz_state \<Rightarrow> pz_state" where
  "apply_per_zone_now st =
     (case compute_per_zone_args (ui st) of
        None \<Rightarrow> st
      | Some args \<Rightarrow>
          if args = [] then st
          else
            let sig = join '' '' args
            in if Some sig = last_per_zone_args st then st
               else st\<lparr>dispatched := dispatched st @ [args]\<rparr>)"

text \<open>
  The callback \<open>_done\<close> (lines 518-524) of the dispatch whose signature is \<open>sig\<close>, called
  with the outcome of \<open>run_privileged\<close>.
\<close>

definition per_zone_done :: "string \<Rightarrow> bool \<Rightarrow> string \<Rightarrow> pz_state \<Rightarrow> pz_state" where
  "per_zone_done sig ok_flag msg st =
     (if ok_flag
      then st\<lparr>notifier := Some (Info ''Keyboard static colors applied''),
              last_per_zone_args := Some sig\<rparr>
      else st\<lparr>notifier := Some (Error msg)\<rparr>)"






section \<open>The specification's wording of colour parsing\<close>



section \<open>The specification's wording of the two classifications\<close>

text \<open>
  "The text contains \<open>p\<close>, ignoring case": some contiguous piece of the text equals \<open>p\<close>
  once both are put in lower case.
\<close>

definition contains_ci :: "string \<Rightarrow> string \<Rightarrow> bool" where
  "contains_ci p s \<longleftrightarrow> (\<exists>u v w. s = u @ v @ w \<and> lower v = lower p)"

text \<open>Step 2 of the decision procedure: the failure is permission-related.\<close>

definition permission_markers :: "string list" where
  "permission_markers =
     [''permission denied'', ''operation not permitted'', ''not authorized'',
      ''authentication is required'', ''must be root'']"

definition permission_related :: "int \<Rightarrow> string \<Rightarrow> bool" where
  "permission_related code err \<longleftrightarrow>
     code = 3 \<or> (\<exists>p \<in> set permission_markers. contains_ci p err)"

text \<open>
  Step 4 as the specification words it: the standard error contains one of the
  markers, with no mention of case.
\<close>

definition spec_requires_interactive_auth :: "int \<Rightarrow> string \<Rightarrow> bool" where
  "spec_requires_interactive_auth code2 err2 \<longleftrightarrow>
     code2 = 127
     \<or> py_in ''a password is required'' err2
     \<or> (py_in ''password'' err2 \<and> (py_in ''authentication'' err2 \<or> py_in ''is required'' err2))
     \<or> py_in ''no tty present'' err2
     \<or> py_in ''unable to authenticate'' err2
     \<or> py_in ''sorry, you must have a tty to run sudo'' err2"

text \<open>Step 4 with the markers looked for ignoring case.\<close>

definition requires_interactive_auth :: "int \<Rightarrow> string \<Rightarrow> bool" where
  "requires_interactive_auth code2 err2 \<longleftrightarrow>
     code2 = 127
     \<or> contains_ci ''a password is required'' err2
     \<or> (contains_ci ''password'' err2
        \<and> (contains_ci ''authentication'' err2 \<or> contains_ci ''is required'' err2))
     \<or> contains_ci ''no tty present'' err2
     \<or> contains_ci ''unable to authenticate'' err2
     \<or> contains_ci ''sorry, you must have a tty to run sudo'' err2"

section \<open>Example hosts\<close>

text \<open>
  A host where the unprivileged run fails on a validation error; one where it is denied
  and \<open>sudo -n\<close> succeeds; one where \<open>sudo -n\<close> asks for a password, in capitals, and
  \<open>pkexec\<close> succeeds; one where \<open>sudo -n\<close> fails for another reason.
\<close>

definition denied_stderr :: string where
  "denied_stderr =
     ''Permission denied writing to /sys/firmware/acpi/platform_profile. Try running with sudo/root.''"

definition host_invalid :: host where
  "host_invalid =
     \<lparr>proc_nekroctl = (\<lambda>_. (1, [], ''Brightness must be 0-100'')),
      which_sudo = True, proc_sudo = (\<lambda>_. (0, ''OK: effect set'', [])),
      which_pkexec = True, proc_pkexec = (\<lambda>_. (0, ''OK: effect set'', []))\<rparr>"

definition host_sudo_ok :: host where
  "host_sudo_ok =
     \<lparr>proc_nekroctl = (\<lambda>_. (3, [], denied_stderr)),
      which_sudo = True, proc_sudo = (\<lambda>_. (0, ''OK: power profile set'', [])),
      which_pkexec = True, proc_pkexec = (\<lambda>_. (126, [], ''Error executing command as another user: Not authorized''))\<rparr>"

definition host_sudo_capitals :: host where
  "host_sudo_capitals =
     \<lparr>proc_nekroctl = (\<lambda>_. (3, [], denied_stderr)),
      which_sudo = True, proc_sudo = (\<lambda>_. (1, [], ''sudo: A Password Is Required'')),
      which_pkexec = True, proc_pkexec = (\<lambda>_. (0, ''OK: power profile set'', []))\<rparr>"

definition host_sudo_refused :: host where
  "host_sudo_refused =
     \<lparr>proc_nekroctl = (\<lambda>_. (3, [], denied_stderr)),
      which_sudo = True,
      proc_sudo = (\<lambda>_. (1, [], ''sudo: not allowed'')),
      which_pkexec = True, proc_pkexec = (\<lambda>_. (0, ''OK: power profile set'', []))\<rparr>"

section \<open>Bursts of intents\<close>





text \<open>
  The write the section dispatches for widget contents \<open>w\<close> when the last applied
  signature is \<open>applied\<close>: none when the contents are invalid or their signature is
  the applied one.
\<close>

definition write_for :: "string option \<Rightarrow> widgets \<Rightarrow> string list list" where
  "write_for applied w =
     (case compute_per_zone_args w of
        None \<Rightarrow> []
      | Some args \<Rightarrow> if Some (join '' '' args) = applied then [] else [args])"

section \<open>Example widget contents\<close>



definition args_blue :: "string list" where
  "args_blue = [''rgb'', ''per-zone'', ''00aaff'', ''00aaff'', ''00aaff'', ''00aaff'', ''-b'', ''100'']"

definition args_red :: "string list" where
  "args_red = [''rgb'', ''per-zone'', ''ff0000'', ''ff0000'', ''ff0000'', ''ff0000'', ''-b'', ''50'']"



section \<open>Example file systems\<close>

text \<open>
  A machine where every attribute exists and can be written; the same machine for a
  user who may not write; a machine without the module.
\<close>

definition sysfs_ok :: sysfs where
  "sysfs_ok =
     \<lparr>exists_at = (\<lambda>_. True),
      open_read = (\<lambda>_. Inr ''balanced\<newline>''),
      open_write = (\<lambda>_ _. None)\<rparr>"



section \<open>Outcomes of a command\<close>













section \<open>Facts about the string functions\<close>

lemma lt10_cases:
  "(d::nat) < 10 \<Longrightarrow>
   d = 0 \<or> d = 1 \<or> d = 2 \<or> d = 3 \<or> d = 4 \<or> d = 5 \<or> d = 6 \<or> d = 7 \<or> d = 8 \<or> d = 9"
  by arith

lemma digit_val_char:
  assumes "d < 10"
  shows "digit_val (digit_char d) = d"
  using lt10_cases[OF assms] by (elim disjE) (simp_all add: digit_val_def digit_char_def)

lemma isdigit_char:
  assumes "d < 10"
  shows "isdigit (digit_char d)"
  using lt10_cases[OF assms] by (elim disjE) (simp_all add: isdigit_def digit_char_def)

lemma isdigit_cases:
  "isdigit c \<Longrightarrow>
   c = CHR ''0'' \<or> c = CHR ''1'' \<or> c = CHR ''2'' \<or> c = CHR ''3'' \<or> c = CHR ''4'' \<or>
   c = CHR ''5'' \<or> c = CHR ''6'' \<or> c = CHR ''7'' \<or> c = CHR ''8'' \<or> c = CHR ''9''"
  by (simp add: isdigit_def)

lemma lower_char_digit:
  assumes "isdigit c"
  shows "lower_char c = c"
  using isdigit_cases[OF assms] by (elim disjE) (simp_all add: lower_char_def)

lemma isdigit_not_space: "isdigit c \<Longrightarrow> \<not> isspace c"
  by (auto simp: isdigit_def isspace_def)

lemma isdigit_not_sign: "isdigit c \<Longrightarrow> c \<noteq> CHR ''-'' \<and> c \<noteq> CHR ''+''"
  by (auto simp: isdigit_def)

lemma str_nat_digits: "\<forall>c \<in> set (str_nat n). isdigit c"
proof (induction n rule: str_nat.induct)
  case (1 n)
  show ?case
  proof (cases "n < 10")
    case True
    then show ?thesis by (simp add: str_nat.simps[of n] isdigit_char)
  next
    case False
    with 1 show ?thesis by (simp add: str_nat.simps[of n] isdigit_char)
  qed
qed

lemma str_nat_nonempty: "str_nat n \<noteq> []"
  by (subst str_nat.simps) simp

lemma str_nat_hd_digit: "isdigit (hd (str_nat n))"
  using str_nat_digits[of n] str_nat_nonempty[of n] by (cases "str_nat n") simp_all

lemma str_nat_last_digit: "isdigit (last (str_nat n))"
  using str_nat_digits[of n] str_nat_nonempty[of n] last_in_set by blast

lemma lower_str_nat: "map lower_char (str_nat n) = str_nat n"
  using str_nat_digits[of n] by (intro map_idI) (simp add: lower_char_digit)

lemma lower_str_int: "lower (str_int i) = str_int i"
  by (simp add: lower_def str_int_def lower_str_nat) (simp add: lower_char_def)

lemma dropWhile_hd: "xs \<noteq> [] \<Longrightarrow> \<not> P (hd xs) \<Longrightarrow> dropWhile P xs = xs"
  by (cases xs) simp_all

lemma strip_id:
  assumes "s \<noteq> []" "\<not> isspace (hd s)" "\<not> isspace (last s)"
  shows "strip s = s"
proof -
  have 1: "dropWhile isspace s = s" using assms by (simp add: dropWhile_hd)
  have "rev s \<noteq> []" "\<not> isspace (hd (rev s))" using assms by (simp_all add: hd_rev)
  then have 2: "dropWhile isspace (rev s) = rev s" by (rule dropWhile_hd)
  show ?thesis by (simp add: strip_def 1 2)
qed

lemma strip_str_nat: "strip (str_nat n) = str_nat n"
  by (rule strip_id)
     (simp_all add: str_nat_nonempty isdigit_not_space str_nat_hd_digit str_nat_last_digit)

lemma strip_str_int: "strip (str_int i) = str_int i"
proof (cases "i < 0")
  case True
  have "\<not> isspace (CHR ''-'')" by (simp add: isspace_def)
  moreover have "\<not> isspace (last (str_nat (nat (- i))))"
    by (simp add: isdigit_not_space str_nat_last_digit)
  ultimately show ?thesis
    using True by (intro strip_id) (simp_all add: str_int_def str_nat_nonempty)
next
  case False
  then show ?thesis by (simp add: str_int_def strip_str_nat)
qed

text \<open>Reading back a printed integer: \<open>int(str(i)) = i\<close>.\<close>

lemma py_digits_all:
  "\<forall>c \<in> set ds. isdigit c \<Longrightarrow>
   py_digits acc ds = Some (foldl (\<lambda>a c. 10 * a + digit_val c) acc ds)"
  by (induction ds arbitrary: acc) simp_all

lemma foldl_str_nat: "foldl (\<lambda>a c. 10 * a + digit_val c) 0 (str_nat n) = n"
proof (induction n rule: str_nat.induct)
  case (1 n)
  show ?case
  proof (cases "n < 10")
    case True
    then show ?thesis by (simp add: str_nat.simps[of n] digit_val_char)
  next
    case False
    with 1 show ?thesis by (simp add: str_nat.simps[of n] digit_val_char)
  qed
qed

lemma py_unsigned_str_nat: "py_unsigned (str_nat n) = Some n"
proof -
  obtain c cs where e: "str_nat n = c # cs"
    using str_nat_nonempty[of n] by (cases "str_nat n") auto
  have d: "\<forall>c \<in> set (str_nat n). isdigit c" by (rule str_nat_digits)
  have "isdigit c" using str_nat_hd_digit[of n] e by simp
  then have "py_unsigned (str_nat n) = py_digits 0 (str_nat n)"
    using e by (simp add: py_unsigned_def)
  then show ?thesis
    using py_digits_all[OF d, of 0] foldl_str_nat[of n] by simp
qed

lemma py_int_str_int: "py_int (str_int i) = Some i"
proof (cases "i < 0")
  case True
  then show ?thesis
    unfolding py_int_def strip_str_int
    by (simp add: str_int_def py_unsigned_str_nat)
next
  case False
  obtain c cs where e: "str_nat (nat i) = c # cs"
    using str_nat_nonempty[of "nat i"] by (cases "str_nat (nat i)") auto
  have "isdigit c" using str_nat_hd_digit[of "nat i"] e by simp
  then have "c \<noteq> CHR ''-''" "c \<noteq> CHR ''+''" using isdigit_not_sign by blast+
  moreover have "py_unsigned (c # cs) = Some (nat i)"
    using py_unsigned_str_nat[of "nat i"] e by simp
  ultimately show ?thesis
    using False e unfolding py_int_def strip_str_int
    by (simp add: str_int_def)
qed

section \<open>Colour parsing\<close>













section \<open>Fan values\<close>

lemma str_int_not_auto: "str_int i \<notin> {''auto'', ''a''}"
proof -
  have "hd (str_int i) = CHR ''-'' \<or> isdigit (hd (str_int i))"
    using str_nat_hd_digit by (simp add: str_int_def)
  then have "hd (str_int i) \<noteq> CHR ''a''" by (auto simp: isdigit_def)
  then show ?thesis by auto
qed

lemma parse_percent_or_auto_int:
  "parse_percent_or_auto (PyInt i) =
     (if i = 0 then Inr 0
      else if 1 \<le> i \<and> i \<le> 100 then Inr i
      else Inl (ValueError ''Percentage must be between 1 and 100 (or 0 for auto)''))"
  using str_int_not_auto[of i]
  by (simp add: parse_percent_or_auto_def strip_str_int lower_str_int parse_percent_def
      py_int_str_int)

lemma parse_percent_or_auto_str_int:
  "parse_percent_or_auto (PyStr (str_int i)) = parse_percent_or_auto (PyInt i)"
  by (simp add: parse_percent_or_auto_def)

lemma parse_percent_or_auto_range:
  "parse_percent_or_auto v = Inr n \<Longrightarrow> 0 \<le> n \<and> n \<le> 100"
  by (auto simp: parse_percent_or_auto_def parse_percent_def Let_def
      split: if_splits option.splits)

lemma parse_percent_or_auto_auto: "parse_percent_or_auto (PyStr ''auto'') = Inr 0"
  by (simp add: parse_percent_or_auto_def strip_def isspace_def lower_def lower_char_def)

text \<open>
  Claim C8. \<open>_parse_percent_or_auto\<close> maps the string \<open>auto\<close> and the integer 0 to 0,
  returns every integer from 1 to 100 unchanged, and raises \<open>ValueError\<close> on every other
  integer, 101 among them; an integer given as its decimal text is treated as the
  integer.
\<close>

theorem parse_percent_or_auto_normalises:
  "parse_percent_or_auto (PyStr ''auto'') = Inr 0
   \<and> parse_percent_or_auto (PyInt 0) = Inr 0
   \<and> (\<forall>i. 1 \<le> i \<and> i \<le> 100 \<longrightarrow> parse_percent_or_auto (PyInt i) = Inr i)
   \<and> (\<forall>i. i < 0 \<or> 100 < i \<longrightarrow> (\<exists>m. parse_percent_or_auto (PyInt i) = Inl (ValueError m)))
   \<and> (\<forall>i. parse_percent_or_auto (PyStr (str_int i)) = parse_percent_or_auto (PyInt i))
   \<and> (\<exists>m. parse_percent_or_auto (PyInt 101) = Inl (ValueError m))"
  by (simp add: parse_percent_or_auto_auto parse_percent_or_auto_int
      parse_percent_or_auto_str_int)

theorem parse_percent_or_auto_normalises_witness:
  "parse_percent_or_auto (PyInt 50) = Inr 50
   \<and> parse_percent_or_auto (PyStr (str_int 50)) = Inr 50
   \<and> (\<exists>m. parse_percent_or_auto (PyInt 250) = Inl (ValueError m))
   \<and> (\<exists>m. parse_percent_or_auto (PyInt (- 1)) = Inl (ValueError m))"
  using parse_percent_or_auto_normalises by simp

section \<open>Privileged execution\<close>

lemma startswith_iff: "startswith s p \<longleftrightarrow> (\<exists>w. s = p @ w)"
proof
  assume "startswith s p"
  then have "s = p @ drop (length p) s"
    unfolding startswith_def by (metis append_take_drop_id)
  then show "\<exists>w. s = p @ w" ..
next
  assume "\<exists>w. s = p @ w"
  then show "startswith s p" by (auto simp: startswith_def)
qed

lemma py_in_iff: "py_in p s \<longleftrightarrow> (\<exists>u w. s = u @ p @ w)"
proof (induction s)
  case Nil
  then show ?case by auto
next
  case (Cons c cs)
  show ?case
  proof
    assume "py_in p (c # cs)"
    then consider "startswith (c # cs) p" | "py_in p cs" by auto
    then show "\<exists>u w. c # cs = u @ p @ w"
    proof cases
      case 1
      then obtain w where "c # cs = p @ w" using startswith_iff by blast
      then have "c # cs = [] @ p @ w" by simp
      then show ?thesis by blast
    next
      case 2
      then obtain u w where "cs = u @ p @ w" using Cons.IH by blast
      then have "c # cs = (c # u) @ p @ w" by simp
      then show ?thesis by blast
    qed
  next
    assume "\<exists>u w. c # cs = u @ p @ w"
    then obtain u w where e: "c # cs = u @ p @ w" by blast
    show "py_in p (c # cs)"
    proof (cases u)
      case Nil
      then have "startswith (c # cs) p" using e startswith_iff by auto
      then show ?thesis by simp
    next
      case (Cons d u')
      then have "cs = u' @ p @ w" using e by simp
      then have "py_in p cs" using Cons.IH by blast
      then show ?thesis by simp
    qed
  qed
qed

lemma contains_ci_iff: "contains_ci p s \<longleftrightarrow> py_in (lower p) (lower s)"
proof
  assume "contains_ci p s"
  then obtain u v w where "s = u @ v @ w" "lower v = lower p"
    unfolding contains_ci_def by blast
  then have "lower s = lower u @ lower p @ lower w" by (simp add: lower_def)
  then show "py_in (lower p) (lower s)" using py_in_iff by blast
next
  assume "py_in (lower p) (lower s)"
  then obtain u' w' where "map lower_char s = u' @ lower p @ w'"
    using py_in_iff unfolding lower_def by blast
  then obtain u r where 1: "s = u @ r" "lower p @ w' = map lower_char r"
    unfolding map_eq_append_conv by blast
  from 1(2) have "map lower_char r = lower p @ w'" by simp
  then obtain v w where 2: "r = v @ w" "lower p = map lower_char v"
    unfolding map_eq_append_conv by blast
  have "s = u @ v @ w" "lower v = lower p" using 1 2 by (simp_all add: lower_def)
  then show "contains_ci p s" unfolding contains_ci_def by blast
qed

lemma por_empty: "por a [] = a"
  by (simp add: por_def)

lemma lower_markers:
  "lower ''permission denied'' = ''permission denied''"
  "lower ''operation not permitted'' = ''operation not permitted''"
  "lower ''not authorized'' = ''not authorized''"
  "lower ''authentication is required'' = ''authentication is required''"
  "lower ''must be root'' = ''must be root''"
  "lower ''a password is required'' = ''a password is required''"
  "lower ''password'' = ''password''"
  "lower ''authentication'' = ''authentication''"
  "lower ''is required'' = ''is required''"
  "lower ''no tty present'' = ''no tty present''"
  "lower ''unable to authenticate'' = ''unable to authenticate''"
  "lower ''sorry, you must have a tty to run sudo'' = ''sorry, you must have a tty to run sudo''"
  by (simp_all add: lower_def lower_char_def)

lemma perm_denied_iff: "perm_denied code (lower err) \<longleftrightarrow> permission_related code err"
  by (simp add: perm_denied_def permission_related_def permission_markers_def contains_ci_iff
      lower_markers)

lemma sudo_requires_password_iff:
  "sudo_requires_password code2 (lower err2) \<longleftrightarrow> requires_interactive_auth code2 err2"
  by (simp add: sudo_requires_password_def requires_interactive_auth_def contains_ci_iff
      lower_markers)

lemma run_privileged_not_permission:
  assumes "run_nekroctl h args = (code, out, err)" "code \<noteq> 0" "\<not> permission_related code err"
  shows "run_privileged h args = ((False, por err (por out (failed_with code))), [Unprivileged])"
  using assms by (simp add: run_privileged_def por_empty perm_denied_iff)

lemma run_privileged_permission:
  assumes "run_nekroctl h args = (code, out, err)" "code \<noteq> 0" "permission_related code err"
    and "run_with_sudo h args = (code2, out2, err2)"
  shows "run_privileged h args =
     (if code2 = 0 then ((True, por out2 ''OK''), [Unprivileged, SudoNonInteractive])
      else if requires_interactive_auth code2 err2 then
        (case run_with_pkexec h args of (code3, out3, err3) \<Rightarrow>
           if code3 = 0
           then ((True, por out3 ''OK''), [Unprivileged, SudoNonInteractive, Pkexec])
           else ((False, por err3 (por out3 (por err2 (por out2
                            (por err (por out (failed_with code3))))))),
                 [Unprivileged, SudoNonInteractive, Pkexec]))
      else ((False, por err2 (por out2 (por err (por out (failed_with code2))))),
            [Unprivileged, SudoNonInteractive]))"
  using assms
  by (simp add: run_privileged_def por_empty perm_denied_iff sudo_requires_password_iff)

lemma run_privileged_trace_pkexec:
  assumes "run_nekroctl h args = (code, out, err)" "code \<noteq> 0" "permission_related code err"
    and "run_with_sudo h args = (code2, out2, err2)"
  shows "snd (run_privileged h args) =
     (if code2 \<noteq> 0 \<and> requires_interactive_auth code2 err2
      then [Unprivileged, SudoNonInteractive, Pkexec]
      else [Unprivileged, SudoNonInteractive])"
  unfolding run_privileged_permission[OF assms]
  by (cases "run_with_pkexec h args") simp

text \<open>
  Claim C1. When the unprivileged run fails, \<open>run_privileged\<close> goes on to \<open>sudo\<close> exactly
  when the exit status is 3 or the standard error contains, ignoring case, one of the
  five permission markers. Otherwise it calls neither \<open>sudo\<close> nor \<open>pkexec\<close> and returns
  a failure with the unprivileged run's message: its standard error, else its standard
  output, else "Failed with code N".
\<close>

theorem run_privileged_permission_gate:
  assumes "run_nekroctl h args = (code, out, err)" and "code \<noteq> 0"
  shows "(perm_denied code (lower (por err [])) \<longleftrightarrow> permission_related code err)
    \<and> (SudoNonInteractive \<in> set (snd (run_privileged h args)) \<longleftrightarrow> permission_related code err)
    \<and> (\<not> permission_related code err \<longrightarrow>
         run_privileged h args =
           ((False, por err (por out (failed_with code))), [Unprivileged]))"
proof (cases "permission_related code err")
  case True
  obtain code2 out2 err2 where s: "run_with_sudo h args = (code2, out2, err2)"
    by (cases "run_with_sudo h args") auto
  have "SudoNonInteractive \<in> set (snd (run_privileged h args))"
    unfolding run_privileged_trace_pkexec[OF assms True s] by simp
  then show ?thesis using True by (simp add: por_empty perm_denied_iff)
next
  case False
  then show ?thesis
    using run_privileged_not_permission[OF assms False]
    by (simp add: por_empty perm_denied_iff)
qed

lemma host_invalid_run: "run_nekroctl host_invalid args = (1, [], ''Brightness must be 0-100'')"
  by (simp add: run_nekroctl_def host_invalid_def stripped_def strip_def isspace_def)

lemma host_invalid_lower:
  "lower ''Brightness must be 0-100'' = ''brightness must be 0-100''"
  by (simp add: lower_def lower_char_def)

lemma host_invalid_not_permission: "\<not> permission_related 1 ''Brightness must be 0-100''"
  by (simp add: permission_related_def permission_markers_def contains_ci_iff lower_markers
      host_invalid_lower startswith_def)

theorem run_privileged_permission_gate_witness:
  "run_nekroctl host_invalid [''rgb'', ''effect'', ''wave'', ''-b'', ''200''] =
     (1, [], ''Brightness must be 0-100'')
   \<and> SudoNonInteractive \<notin> set (snd (run_privileged host_invalid
         [''rgb'', ''effect'', ''wave'', ''-b'', ''200'']))
   \<and> run_privileged host_invalid [''rgb'', ''effect'', ''wave'', ''-b'', ''200''] =
       ((False, ''Brightness must be 0-100''), [Unprivileged])"
  using run_privileged_permission_gate[OF host_invalid_run, of "[''rgb'', ''effect'', ''wave'', ''-b'', ''200'']"]
    host_invalid_not_permission host_invalid_run
  by (simp add: por_def)

lemma contains_ciI: "s = u @ v @ w \<Longrightarrow> lower v = lower p \<Longrightarrow> contains_ci p s"
  unfolding contains_ci_def by blast

text \<open>
  Claim C2, as amended. After a permission-related unprivileged failure,
  \<open>run_privileged\<close> calls \<open>sudo -n\<close> next, and \<open>pkexec\<close> only after it. It calls \<open>pkexec\<close>
  exactly when \<open>sudo -n\<close> failed and either its exit status is 127 or its standard error
  contains, ignoring case, one of the password markers. When \<open>sudo -n\<close> failed for
  another reason, the outcome is a failure whose message is the first non-empty text
  among the standard error and output of \<open>sudo -n\<close>, the standard error and output of
  the unprivileged run, and "Failed with code N".
\<close>

theorem run_privileged_escalation_order:
  assumes "run_nekroctl h args = (code, out, err)" and "code \<noteq> 0"
    and "permission_related code err"
    and "run_with_sudo h args = (code2, out2, err2)"
  shows "take 2 (snd (run_privileged h args)) = [Unprivileged, SudoNonInteractive]
    \<and> (snd (run_privileged h args) = [Unprivileged, SudoNonInteractive]
       \<or> snd (run_privileged h args) = [Unprivileged, SudoNonInteractive, Pkexec])
    \<and> (Pkexec \<in> set (snd (run_privileged h args))
         \<longleftrightarrow> code2 \<noteq> 0 \<and> requires_interactive_auth code2 err2)
    \<and> (sudo_requires_password code2 (lower (por err2 []))
         \<longleftrightarrow> requires_interactive_auth code2 err2)
    \<and> (code2 \<noteq> 0 \<and> \<not> requires_interactive_auth code2 err2 \<longrightarrow>
         run_privileged h args =
           ((False, por err2 (por out2 (por err (por out (failed_with code2))))),
            [Unprivileged, SudoNonInteractive]))
    \<and> (code2 = 0 \<longrightarrow>
         run_privileged h args =
           ((True, por out2 ''OK''), [Unprivileged, SudoNonInteractive]))"
proof -
  have t: "snd (run_privileged h args) =
     (if code2 \<noteq> 0 \<and> requires_interactive_auth code2 err2
      then [Unprivileged, SudoNonInteractive, Pkexec]
      else [Unprivileged, SudoNonInteractive])"
    by (rule run_privileged_trace_pkexec[OF assms])
  have r: "code2 \<noteq> 0 \<and> \<not> requires_interactive_auth code2 err2 \<longrightarrow>
         run_privileged h args =
           ((False, por err2 (por out2 (por err (por out (failed_with code2))))),
            [Unprivileged, SudoNonInteractive])"
    unfolding run_privileged_permission[OF assms] by simp
  have z: "code2 = 0 \<longrightarrow>
         run_privileged h args =
           ((True, por out2 ''OK''), [Unprivileged, SudoNonInteractive])"
    unfolding run_privileged_permission[OF assms] by simp
  show ?thesis
    using r z unfolding t by (simp add: por_empty sudo_requires_password_iff)
qed

lemma denied_run: "stripped (3, [], denied_stderr) = (3, [], denied_stderr)"
  by (simp add: stripped_def strip_def isspace_def denied_stderr_def)

lemma host_sudo_refused_run: "run_nekroctl host_sudo_refused args = (3, [], denied_stderr)"
  by (simp add: run_nekroctl_def host_sudo_refused_def denied_run)

lemma host_sudo_refused_sudo:
  "run_with_sudo host_sudo_refused args = (1, [], ''sudo: not allowed'')"
  by (simp add: run_with_sudo_def have_sudo_def host_sudo_refused_def stripped_def strip_def
      isspace_def)

lemma not_allowed_lower: "lower ''sudo: not allowed'' = ''sudo: not allowed''"
  by (simp add: lower_def lower_char_def)

lemma not_allowed_not_interactive: "\<not> requires_interactive_auth 1 ''sudo: not allowed''"
  by (simp add: requires_interactive_auth_def contains_ci_iff lower_markers not_allowed_lower
      startswith_def)

theorem run_privileged_escalation_order_witness:
  "run_nekroctl host_sudo_refused [''power'', ''set'', ''quiet''] = (3, [], denied_stderr)
   \<and> permission_related 3 denied_stderr
   \<and> run_with_sudo host_sudo_refused [''power'', ''set'', ''quiet''] = (1, [], ''sudo: not allowed'')
   \<and> Pkexec \<notin> set (snd (run_privileged host_sudo_refused [''power'', ''set'', ''quiet'']))
   \<and> run_privileged host_sudo_refused [''power'', ''set'', ''quiet''] =
       ((False, ''sudo: not allowed''), [Unprivileged, SudoNonInteractive])"
proof -
  have p: "permission_related 3 denied_stderr" by (simp add: permission_related_def)
  have n: "(3::int) \<noteq> 0" by simp
  show ?thesis
    using run_privileged_escalation_order[OF host_sudo_refused_run n p host_sudo_refused_sudo,
        of "[''power'', ''set'', ''quiet'']"]
      not_allowed_not_interactive p host_sudo_refused_run host_sudo_refused_sudo
    by (simp add: por_def)
qed

text \<open>
  Claim C2 as stated fails: when \<open>sudo -n\<close> exits with 1 and the standard error
  "sudo: A Password Is Required", that text contains none of the markers as they are
  written, yet \<open>run_privileged\<close> lowercases it, finds "a password is required" and calls
  \<open>pkexec\<close>.
\<close>

lemma host_sudo_capitals_run: "run_nekroctl host_sudo_capitals args = (3, [], denied_stderr)"
  by (simp add: run_nekroctl_def host_sudo_capitals_def denied_run)

lemma host_sudo_capitals_sudo:
  "run_with_sudo host_sudo_capitals args = (1, [], ''sudo: A Password Is Required'')"
  by (simp add: run_with_sudo_def have_sudo_def host_sudo_capitals_def stripped_def strip_def
      isspace_def)

lemma capitals_interactive: "requires_interactive_auth 1 ''sudo: A Password Is Required''"
proof -
  have "contains_ci ''a password is required'' ''sudo: A Password Is Required''"
    by (rule contains_ciI[of _ "''sudo: ''" "''A Password Is Required''" "[]"])
       (simp_all add: lower_def lower_char_def)
  then show ?thesis by (simp add: requires_interactive_auth_def)
qed

lemma capitals_not_spec: "\<not> spec_requires_interactive_auth 1 ''sudo: A Password Is Required''"
  by (simp add: spec_requires_interactive_auth_def startswith_def)

theorem run_privileged_escalation_counterexample:
  "run_nekroctl host_sudo_capitals [''power'', ''set'', ''quiet''] = (3, [], denied_stderr)
   \<and> permission_related 3 denied_stderr
   \<and> run_with_sudo host_sudo_capitals [''power'', ''set'', ''quiet''] =
       (1, [], ''sudo: A Password Is Required'')
   \<and> \<not> spec_requires_interactive_auth 1 ''sudo: A Password Is Required''
   \<and> Pkexec \<in> set (snd (run_privileged host_sudo_capitals [''power'', ''set'', ''quiet'']))"
proof -
  have p: "permission_related 3 denied_stderr" by (simp add: permission_related_def)
  have n: "(3::int) \<noteq> 0" by simp
  have "snd (run_privileged host_sudo_capitals [''power'', ''set'', ''quiet'']) =
          [Unprivileged, SudoNonInteractive, Pkexec]"
    unfolding run_privileged_trace_pkexec[OF host_sudo_capitals_run n p host_sudo_capitals_sudo]
    using capitals_interactive by simp
  then show ?thesis
    using p capitals_not_spec host_sudo_capitals_run host_sudo_capitals_sudo by simp
qed

section \<open>Debounced apply\<close>




lemma compute_per_zone_args_nonempty: "compute_per_zone_args w = Some args \<Longrightarrow> args \<noteq> []"
  by (auto simp: compute_per_zone_args_def Let_def split: if_splits sum.splits option.splits)

lemma dispatched_apply:
  "dispatched (apply_per_zone_now st) = dispatched st @ write_for (last_per_zone_args st) (ui st)"
  using compute_per_zone_args_nonempty[of "ui st"]
  by (auto simp: apply_per_zone_now_def write_for_def Let_def split: option.splits)

lemma apply_keeps:
  "per_zone_timer_id (apply_per_zone_now st) = per_zone_timer_id st"
  "per_zone_last_change (apply_per_zone_now st) = per_zone_last_change st"
  "last_per_zone_args (apply_per_zone_now st) = last_per_zone_args st"
  "ui (apply_per_zone_now st) = ui st"
  by (simp_all add: apply_per_zone_now_def Let_def split: option.splits)

















lemma sig_red_not_blue: "join '' '' args_red \<noteq> join '' '' args_blue"
  by (simp add: args_red_def args_blue_def)



section \<open>Duplicate suppression\<close>

lemma done_keeps:
  "ui (per_zone_done sig ok_flag msg st) = ui st"
  "dispatched (per_zone_done sig ok_flag msg st) = dispatched st"
  by (simp_all add: per_zone_done_def)

lemma done_baseline:
  "last_per_zone_args (per_zone_done sig True msg st) = Some sig"
  "last_per_zone_args (per_zone_done sig False msg st) = last_per_zone_args st"
  by (simp_all add: per_zone_done_def)


lemma apply_other_dispatches:
  assumes "compute_per_zone_args (ui st) = Some args"
    and "last_per_zone_args st \<noteq> Some (join '' '' args)"
  shows "dispatched (apply_per_zone_now st) = dispatched st @ [args]"
  using assms by (auto simp: dispatched_apply write_for_def)

text \<open>
  After a failed dispatch the signature is not recorded, so applying the same contents
  again dispatches again: the suppression is against the last successful write only.
\<close>

lemma retry_after_failure:
  assumes "compute_per_zone_args (ui st) = Some args"
    and "last_per_zone_args st \<noteq> Some (join '' '' args)"
  shows "dispatched (apply_per_zone_now
           (per_zone_done (join '' '' args) False msg (apply_per_zone_now st))) =
         dispatched st @ [args, args]"
proof -
  let ?s = "per_zone_done (join '' '' args) False msg (apply_per_zone_now st)"
  have "compute_per_zone_args (ui ?s) = Some args"
    using assms(1) by (simp add: done_keeps apply_keeps)
  moreover have "last_per_zone_args ?s \<noteq> Some (join '' '' args)"
    using assms(2) by (simp add: done_baseline apply_keeps)
  ultimately have "dispatched (apply_per_zone_now ?s) = dispatched ?s @ [args]"
    by (rule apply_other_dispatches)
  then show ?thesis
    using apply_other_dispatches[OF assms] by (simp add: done_keeps)
qed



section \<open>Sequencing of effects\<close>

lemma and_then_ok: "and_then (ok x) f = f x"
  by (cases "f x") (simp add: and_then_def ok_def)

lemma and_then_raise: "and_then (raise e) f = raise e"
  by (simp add: and_then_def raise_def)

lemma and_then_lift_Inr: "and_then (lift (Inr x)) f = f x"
  by (cases "f x") (simp add: and_then_def lift_def)

lemma and_then_lift_Inl: "and_then (lift (Inl e)) f = raise e"
  by (simp add: and_then_def lift_def raise_def)

lemma and_then_emit: "and_then (emit x) f = (case f () of (r, l) \<Rightarrow> (r, x # l))"
  by (simp add: and_then_def emit_def)

lemma require_path_ok: "path_exists env p \<Longrightarrow> require_path env p d = ok ()"
  by (simp add: require_path_def)

lemma write_text_ok:
  "open_write env p c = None \<Longrightarrow> write_text env p c = emit (FileWrite p c)"
  by (simp add: write_text_def)

lemma sysfs_ok_exists: "path_exists sysfs_ok p"
  by (simp add: path_exists_def sysfs_ok_def)

lemma sysfs_ok_write: "open_write sysfs_ok p c = None"
  by (simp add: sysfs_ok_def)

section \<open>Per-zone colours\<close>

lemma cmd_rgb_per_zone_parsed:
  assumes "path_exists env KB_PER_ZONE" and "parse_colors (pz_colors args) = Inr cs"
  shows "cmd_rgb_per_zone env args =
     (if length cs = 0 then
        (if pz_parser args then emit (PrintHelp ''rgb per-zone'')
         else raise (SystemExit (ExitStr ''Provide at least one color (RRGGBB).'')))
      else
        let colors = (if length cs = 1 then concat (replicate 4 cs) else cs)
        in if length colors \<noteq> 4
           then raise (SystemExit (ExitStr ''Provide exactly 1 or 4 colors (RRGGBB).''))
           else
             let brightness = (case pz_brightness args of None \<Rightarrow> 100 | Some b \<Rightarrow> b)
             in if \<not> (0 \<le> brightness \<and> brightness \<le> 100)
                then raise (SystemExit (ExitStr ''Brightness must be 0-100''))
                else
                  and_then
                    (write_text env KB_PER_ZONE
                       (join '','' (colors @ [str_int brightness]) @ ''\<newline>''))
                    (\<lambda>_. emit (Stdout ''OK: per-zone colors set'')))"
  unfolding cmd_rgb_per_zone_def require_path_ok[OF assms(1)] and_then_ok assms(2)
    and_then_lift_Inr
  by (rule refl)

lemma concat_replicate_one: "length cs = 1 \<Longrightarrow> concat (replicate 4 cs) = replicate 4 (hd cs)"
  by (cases cs) (simp_all add: eval_nat_numeral)

lemma parse_colors_red: "parse_colors [''ff0000''] = Inr [''ff0000'']"
  by (simp add: parse_hex_color_def strip_def isspace_def startswith_def hexdigits_def
      lower_def lower_char_def)

lemma str_int_50': "str_int 50 = ''50''"
  by (simp add: str_int_def str_nat.simps digit_char_def)

text \<open>
  Claim C5, as amended. With the attribute present, every colour valid and the
  brightness \<open>b\<close> between 0 and 100, \<open>cmd_rgb_per_zone\<close> writes the four colours followed
  by \<open>b\<close>, separated by commas and ended by a newline: one colour is repeated four
  times, four colours are taken as they are. Two, three, five or more colours end in
  the exit "Provide exactly 1 or 4 colors (RRGGBB)." with nothing written. No colour at
  all prints the help of the subcommand and returns normally when the parser is
  attached, and ends in the exit "Provide at least one color (RRGGBB)." only without
  it. The colours \<open>["ff0000"]\<close> with brightness 50 are written as
  \<open>ff0000,ff0000,ff0000,ff0000,50\<close>.
\<close>

theorem cmd_rgb_per_zone_encodes:
  assumes "path_exists env KB_PER_ZONE"
    and "parse_colors (pz_colors args) = Inr cs"
    and "b = (case pz_brightness args of None \<Rightarrow> 100 | Some x \<Rightarrow> x)"
  shows "(length cs = 1 \<and> 0 \<le> b \<and> b \<le> 100 \<longrightarrow>
          cmd_rgb_per_zone env args =
            and_then
              (write_text env KB_PER_ZONE
                 (join '','' (replicate 4 (hd cs) @ [str_int b]) @ ''\<newline>''))
              (\<lambda>_. emit (Stdout ''OK: per-zone colors set'')))
    \<and> (length cs = 4 \<and> 0 \<le> b \<and> b \<le> 100 \<longrightarrow>
          cmd_rgb_per_zone env args =
            and_then
              (write_text env KB_PER_ZONE (join '','' (cs @ [str_int b]) @ ''\<newline>''))
              (\<lambda>_. emit (Stdout ''OK: per-zone colors set'')))
    \<and> (length cs \<noteq> 0 \<and> length cs \<noteq> 1 \<and> length cs \<noteq> 4 \<longrightarrow>
          cmd_rgb_per_zone env args =
            raise (SystemExit (ExitStr ''Provide exactly 1 or 4 colors (RRGGBB).'')))
    \<and> (length cs = 0 \<and> pz_parser args \<longrightarrow>
          cmd_rgb_per_zone env args = emit (PrintHelp ''rgb per-zone''))
    \<and> (length cs = 0 \<and> \<not> pz_parser args \<longrightarrow>
          cmd_rgb_per_zone env args =
            raise (SystemExit (ExitStr ''Provide at least one color (RRGGBB).'')))
    \<and> (cs = [''ff0000''] \<and> b = 50 \<longrightarrow>
          cmd_rgb_per_zone env args =
            and_then
              (write_text env KB_PER_ZONE ''ff0000,ff0000,ff0000,ff0000,50\<newline>'')
              (\<lambda>_. emit (Stdout ''OK: per-zone colors set'')))"
proof -
  have one: "length cs = 1 \<Longrightarrow> concat (replicate 4 cs) = replicate 4 (hd cs)"
    by (rule concat_replicate_one)
  show ?thesis
    unfolding cmd_rgb_per_zone_parsed[OF assms(1,2)] assms(3)[symmetric]
    using one by (auto simp: Let_def eval_nat_numeral str_int_50')
qed

theorem cmd_rgb_per_zone_encodes_witness:
  "path_exists sysfs_ok KB_PER_ZONE
   \<and> parse_colors [''ff0000''] = Inr [''ff0000'']
   \<and> cmd_rgb_per_zone sysfs_ok
        \<lparr>pz_colors = [''ff0000''], pz_brightness = Some 50, pz_parser = True\<rparr> =
       (Inr (),
        [FileWrite KB_PER_ZONE ''ff0000,ff0000,ff0000,ff0000,50\<newline>'',
         Stdout ''OK: per-zone colors set''])"
proof -
  have p: "parse_colors (pz_colors \<lparr>pz_colors = [''ff0000''], pz_brightness = Some 50,
             pz_parser = True\<rparr>) = Inr [''ff0000'']"
    using parse_colors_red by simp
  have b: "(50::int) = (case pz_brightness \<lparr>pz_colors = [''ff0000''], pz_brightness = Some 50,
             pz_parser = True\<rparr> of None \<Rightarrow> 100 | Some x \<Rightarrow> x)"
    by simp
  show ?thesis
    using cmd_rgb_per_zone_encodes[OF sysfs_ok_exists p b] sysfs_ok_exists parse_colors_red
    by (simp add: write_text_ok sysfs_ok_write and_then_def emit_def eval_nat_numeral
        str_int_50')
qed

text \<open>
  Claim C5 as stated fails: an empty list of colours is a count other than 1 and 4, yet
  the command, run as the parser runs it, prints the help, returns normally and \<open>main\<close>
  exits with status 0.
\<close>

theorem cmd_rgb_per_zone_counterexample:
  "path_exists sysfs_ok KB_PER_ZONE
   \<and> parse_colors [] = Inr []
   \<and> cmd_rgb_per_zone sysfs_ok \<lparr>pz_colors = [], pz_brightness = Some 100, pz_parser = True\<rparr> =
       (Inr (), [PrintHelp ''rgb per-zone''])
   \<and> main sysfs_ok (RgbPerZone \<lparr>pz_colors = [], pz_brightness = Some 100, pz_parser = True\<rparr>) =
       (0, [PrintHelp ''rgb per-zone''])"
proof -
  have c: "cmd_rgb_per_zone sysfs_ok
             \<lparr>pz_colors = [], pz_brightness = Some 100, pz_parser = True\<rparr> =
           (Inr (), [PrintHelp ''rgb per-zone''])"
    using cmd_rgb_per_zone_parsed[OF sysfs_ok_exists,
        of "\<lparr>pz_colors = [], pz_brightness = Some 100, pz_parser = True\<rparr>" "[]"]
    by (simp add: emit_def)
  show ?thesis
    using c sysfs_ok_exists by (simp add: main_def exit_status_def main_stderr_def)
qed

section \<open>Effect modes\<close>



















section \<open>Fan speeds\<close>

lemma parse_percent_or_auto_again:
  assumes "parse_percent_or_auto v = Inr n"
  shows "parse_percent_or_auto (PyStr (py_str (PyInt n))) = Inr n"
  using parse_percent_or_auto_range[OF assms]
  by (simp add: parse_percent_or_auto_str_int parse_percent_or_auto_int)

lemma fan_set_tail:
  assumes "parse_percent_or_auto (PyStr (py_str c)) = Inr n"
    and "parse_percent_or_auto (PyStr (py_str g)) = Inr k"
  shows "and_then (lift (parse_percent_or_auto (PyStr (py_str c)))) (\<lambda>cpu.
         and_then (lift (parse_percent_or_auto (PyStr (py_str g)))) (\<lambda>gpu.
         and_then (write_text env p (str_int cpu @ '','' @ str_int gpu @ ''\<newline>''))
           (\<lambda>_. emit (Stdout (''OK: fan set CPU='' @ str_int cpu @ '' GPU='' @ str_int gpu))))) =
         and_then (write_text env p (str_int n @ '','' @ str_int k @ ''\<newline>''))
           (\<lambda>_. emit (Stdout (''OK: fan set CPU='' @ str_int n @ '' GPU='' @ str_int k)))"
  unfolding assms and_then_lift_Inr by (rule refl)

lemma cmd_fan_set_gpu_only:
  assumes "fan_path env = ok p" and "fs_values args = []" and "fs_cpu args = None"
    and "fs_gpu args = Some g" and "parse_percent_or_auto (PyStr g) = Inr n"
  shows "cmd_fan_set env args =
         and_then (write_text env p (str_int n @ '','' @ str_int n @ ''\<newline>''))
           (\<lambda>_. emit (Stdout (''OK: fan set CPU='' @ str_int n @ '' GPU='' @ str_int n)))"
proof -
  have a: "parse_percent_or_auto (PyStr (py_str (PyInt n))) = Inr n"
    by (rule parse_percent_or_auto_again[OF assms(5)])
  have b: "parse_percent_or_auto (PyStr (py_str (PyStr g))) = Inr n"
    using assms(5) by simp
  show ?thesis
    unfolding cmd_fan_set_def assms(1) and_then_ok
    using assms(2-5) fan_set_tail[OF a b, of env p]
    by (simp add: and_then_ok and_then_lift_Inr)
qed

lemma cmd_fan_set_cpu_only:
  assumes "fan_path env = ok p" and "fs_values args = []" and "fs_gpu args = None"
    and "fs_cpu args = Some c" and "parse_percent_or_auto (PyStr c) = Inr n"
  shows "cmd_fan_set env args =
         and_then (write_text env p (str_int n @ '','' @ str_int n @ ''\<newline>''))
           (\<lambda>_. emit (Stdout (''OK: fan set CPU='' @ str_int n @ '' GPU='' @ str_int n)))"
proof -
  have a: "parse_percent_or_auto (PyStr (py_str (PyInt n))) = Inr n"
    by (rule parse_percent_or_auto_again[OF assms(5)])
  have b: "parse_percent_or_auto (PyStr (py_str (PyStr c))) = Inr n"
    using assms(5) by simp
  show ?thesis
    unfolding cmd_fan_set_def assms(1) and_then_ok
    using assms(2-5) fan_set_tail[OF b a, of env p]
    by (simp add: and_then_ok and_then_lift_Inr)
qed

lemma cmd_fan_set_one_value:
  assumes "fan_path env = ok p" and "fs_values args = [v]"
    and "parse_percent_or_auto (PyStr v) = Inr n"
  shows "cmd_fan_set env args =
         and_then (write_text env p (str_int n @ '','' @ str_int n @ ''\<newline>''))
           (\<lambda>_. emit (Stdout (''OK: fan set CPU='' @ str_int n @ '' GPU='' @ str_int n)))"
proof -
  have a: "parse_percent_or_auto (PyStr (py_str (PyInt n))) = Inr n"
    by (rule parse_percent_or_auto_again[OF assms(3)])
  show ?thesis
    unfolding cmd_fan_set_def assms(1) and_then_ok
    using assms(2,3) fan_set_tail[OF a a, of env p]
    by (simp add: and_then_ok and_then_lift_Inr)
qed

lemma cmd_fan_set_gpu_invalid:
  assumes "fan_path env = ok p" and "fs_values args = []" and "fs_cpu args = None"
    and "fs_gpu args = Some g" and "parse_percent_or_auto (PyStr g) = Inl e"
  shows "cmd_fan_set env args = raise e"
  unfolding cmd_fan_set_def assms(1) and_then_ok
  using assms(2-5) by (simp add: and_then_ok and_then_lift_Inl and_then_raise)

lemma cmd_fan_set_cpu_invalid:
  assumes "fan_path env = ok p" and "fs_values args = []" and "fs_gpu args = None"
    and "fs_cpu args = Some c" and "parse_percent_or_auto (PyStr c) = Inl e"
  shows "cmd_fan_set env args = raise e"
  unfolding cmd_fan_set_def assms(1) and_then_ok
  using assms(2-5) by (simp add: and_then_ok and_then_lift_Inl and_then_raise)

text \<open>
  Claim C10. Let the fan attribute be found at \<open>p\<close>. When \<open>cmd_fan_set\<close> is given only
  \<open>--gpu\<close>, or only \<open>--cpu\<close>, or a single positional value, and that value normalises to
  \<open>n\<close>, it writes \<open>n,n\<close> to \<open>p\<close>: the fan that was not given gets the value of the other.
  A value that does not normalise raises the error of \<open>_parse_percent_or_auto\<close> and
  nothing is written.
\<close>

theorem cmd_fan_set_fills_missing:
  assumes "fan_path env = ok p"
  shows "(\<forall>g n. fs_values args = [] \<and> fs_cpu args = None \<and> fs_gpu args = Some g
            \<and> parse_percent_or_auto (PyStr g) = Inr n \<longrightarrow>
          cmd_fan_set env args =
            and_then (write_text env p (str_int n @ '','' @ str_int n @ ''\<newline>''))
              (\<lambda>_. emit (Stdout (''OK: fan set CPU='' @ str_int n @ '' GPU='' @ str_int n))))
    \<and> (\<forall>c n. fs_values args = [] \<and> fs_gpu args = None \<and> fs_cpu args = Some c
            \<and> parse_percent_or_auto (PyStr c) = Inr n \<longrightarrow>
          cmd_fan_set env args =
            and_then (write_text env p (str_int n @ '','' @ str_int n @ ''\<newline>''))
              (\<lambda>_. emit (Stdout (''OK: fan set CPU='' @ str_int n @ '' GPU='' @ str_int n))))
    \<and> (\<forall>v n. fs_values args = [v] \<and> parse_percent_or_auto (PyStr v) = Inr n \<longrightarrow>
          cmd_fan_set env args =
            and_then (write_text env p (str_int n @ '','' @ str_int n @ ''\<newline>''))
              (\<lambda>_. emit (Stdout (''OK: fan set CPU='' @ str_int n @ '' GPU='' @ str_int n))))
    \<and> (\<forall>g e. fs_values args = [] \<and> fs_cpu args = None \<and> fs_gpu args = Some g
            \<and> parse_percent_or_auto (PyStr g) = Inl e \<longrightarrow>
          cmd_fan_set env args = raise e)
    \<and> (\<forall>c e. fs_values args = [] \<and> fs_gpu args = None \<and> fs_cpu args = Some c
            \<and> parse_percent_or_auto (PyStr c) = Inl e \<longrightarrow>
          cmd_fan_set env args = raise e)"
  using cmd_fan_set_gpu_only[OF assms, of args] cmd_fan_set_cpu_only[OF assms, of args]
    cmd_fan_set_one_value[OF assms, of args] cmd_fan_set_gpu_invalid[OF assms, of args]
    cmd_fan_set_cpu_invalid[OF assms, of args]
  by blast

lemma fan_path_sysfs_ok:
  "fan_path sysfs_ok =
     ok ''/sys/module/nekro_sense/drivers/platform:acer-wmi/acer-wmi/predator_sense/fan_speed''"
  by (simp add: fan_path_def sense_attr_path_def detect_sense_dir_def sysfs_ok_exists
      require_path_ok and_then_ok SENSE_PRED_def SYSFS_BASE_def path_join_def startswith_def)

lemma parse_50: "parse_percent_or_auto (PyStr ''50'') = Inr 50"
  by (simp add: parse_percent_or_auto_def parse_percent_def strip_def isspace_def lower_def
      lower_char_def py_int_def py_unsigned_def isdigit_def digit_val_def)

theorem cmd_fan_set_fills_missing_witness:
  "fan_path sysfs_ok =
     ok ''/sys/module/nekro_sense/drivers/platform:acer-wmi/acer-wmi/predator_sense/fan_speed''
   \<and> parse_percent_or_auto (PyStr ''50'') = Inr 50
   \<and> cmd_fan_set sysfs_ok \<lparr>fs_values = [], fs_cpu = None, fs_gpu = Some ''50''\<rparr> =
       (Inr (),
        [FileWrite
           ''/sys/module/nekro_sense/drivers/platform:acer-wmi/acer-wmi/predator_sense/fan_speed''
           ''50,50\<newline>'',
         Stdout ''OK: fan set CPU=50 GPU=50''])"
  using cmd_fan_set_fills_missing[OF fan_path_sysfs_ok,
      of "\<lparr>fs_values = [], fs_cpu = None, fs_gpu = Some ''50''\<rparr>"]
    fan_path_sysfs_ok parse_50
  by (simp add: write_text_ok sysfs_ok_write and_then_def emit_def str_int_50')

section \<open>Exit status\<close>























subsection \<open>Each leaf has one of the listed outcomes\<close>












subsection \<open>A denied write raises\<close>




















subsection \<open>Runs on the example file systems\<close>









subsection \<open>The exit status of every leaf\<close>





end
